theory Spec2Isabelle
  imports Main "HOL-Library.Word"
begin

section \<open>Typed values and native values\<close>

text \<open>
  The runtime's tagged value \<open>wasmtime::component::Val\<close>. The header tests five tags
  (\<open>is_s32\<close>, \<open>is_s64\<close>, \<open>is_u64\<close>, \<open>is_f32\<close>, \<open>is_f64\<close>); every other tag of the
  runtime's value type is collected in \<open>VOther\<close>, whose payload stands for the opaque
  content. The converter only stores and returns floating-point payloads, it never
  computes with them, so a float is carried as its 32-bit and a double as its 64-bit
  pattern; the value-initialised float \<open>T{}\<close> is the all-zero pattern.
\<close>

datatype val =
    VS32 "32 word"
  | VS64 "64 word"
  | VU64 "64 word"
  | VF32 "32 word"
  | VF64 "64 word"
  | VOther nat

datatype tag = TagS32 | TagS64 | TagU64 | TagF32 | TagF64 | TagOther

fun tag_of :: "val \<Rightarrow> tag" where
  "tag_of (VS32 _) = TagS32"
| "tag_of (VS64 _) = TagS64"
| "tag_of (VU64 _) = TagU64"
| "tag_of (VF32 _) = TagF32"
| "tag_of (VF64 _) = TagF64"
| "tag_of (VOther _) = TagOther"

text \<open>
  The native types a template parameter \<open>T\<close>, \<open>Ret\<close> or \<open>Args\<close> can be: the five the
  \<open>if constexpr\<close> chains name (\<open>int\<close> is \<open>int32_t\<close>, \<open>long long\<close> is \<open>int64_t\<close>,
  \<open>unsigned long long\<close> is \<open>uint64_t\<close>) and \<open>TOther\<close> for every type that falls through
  the chain. A native value carries its static type as its constructor; \<open>int64_t\<close> and
  \<open>uint64_t\<close> are both 64-bit words (read with \<open>sint\<close> and \<open>unat\<close>), so the
  \<open>static_cast\<close> between them is the identity on the bits.
\<close>

datatype ctype = TInt32 | TInt64 | TUInt64 | TFloat | TDouble | TOther

datatype native =
    NInt32 "32 word"
  | NInt64 "64 word"
  | NUInt64 "64 word"
  | NFloat "32 word"
  | NDouble "64 word"
  | NOther nat

fun native_type :: "native \<Rightarrow> ctype" where
  "native_type (NInt32 _) = TInt32"
| "native_type (NInt64 _) = TInt64"
| "native_type (NUInt64 _) = TUInt64"
| "native_type (NFloat _) = TFloat"
| "native_type (NDouble _) = TDouble"
| "native_type (NOther _) = TOther"

text \<open>The value-initialised \<open>T{}\<close>.\<close>

fun zero_value :: "ctype \<Rightarrow> native" where
  "zero_value TInt32 = NInt32 0"
| "zero_value TInt64 = NInt64 0"
| "zero_value TUInt64 = NUInt64 0"
| "zero_value TFloat = NFloat 0"
| "zero_value TDouble = NDouble 0"
| "zero_value TOther = NOther 0"

text \<open>The tag a native type is wrapped under; an unsupported type has none.\<close>

fun tag_for :: "ctype \<Rightarrow> tag option" where
  "tag_for TInt32 = Some TagS32"
| "tag_for TInt64 = Some TagS64"
| "tag_for TUInt64 = Some TagU64"
| "tag_for TFloat = Some TagF32"
| "tag_for TDouble = Some TagF64"
| "tag_for TOther = None"

section \<open>Typed value converter\<close>

text \<open>
  \<open>extractValue<T>(val, index)\<close>, one function per instantiation. The \<open>index\<close>
  parameter is unused in the source. Each function tests the tag and falls through to
  \<open>return T{}\<close>; \<open>extractValue<int64_t>\<close> also accepts a u64-tagged value.
\<close>

definition extractValue_int32 :: "val \<Rightarrow> nat \<Rightarrow> 32 word" where
  "extractValue_int32 v index = (case v of VS32 x \<Rightarrow> x | _ \<Rightarrow> 0)"

definition extractValue_int64 :: "val \<Rightarrow> nat \<Rightarrow> 64 word" where
  "extractValue_int64 v index = (case v of VS64 x \<Rightarrow> x | VU64 x \<Rightarrow> x | _ \<Rightarrow> 0)"

definition extractValue_uint64 :: "val \<Rightarrow> nat \<Rightarrow> 64 word" where
  "extractValue_uint64 v index = (case v of VU64 x \<Rightarrow> x | _ \<Rightarrow> 0)"

definition extractValue_float :: "val \<Rightarrow> nat \<Rightarrow> 32 word" where
  "extractValue_float v index = (case v of VF32 x \<Rightarrow> x | _ \<Rightarrow> 0)"

definition extractValue_double :: "val \<Rightarrow> nat \<Rightarrow> 64 word" where
  "extractValue_double v index = (case v of VF64 x \<Rightarrow> x | _ \<Rightarrow> 0)"

text \<open>The template, selected by its type argument.\<close>

fun extractValue :: "ctype \<Rightarrow> val \<Rightarrow> nat \<Rightarrow> native" where
  "extractValue TInt32 v index = NInt32 (extractValue_int32 v index)"
| "extractValue TInt64 v index = NInt64 (extractValue_int64 v index)"
| "extractValue TUInt64 v index = NUInt64 (extractValue_uint64 v index)"
| "extractValue TFloat v index = NFloat (extractValue_float v index)"
| "extractValue TDouble v index = NDouble (extractValue_double v index)"
| "extractValue TOther v index = zero_value TOther"

text \<open>
  \<open>createResultVal<Ret>(result)\<close>: the static type of the result picks the tag; a type
  outside the chain is wrapped as \<open>Val(int32_t 0)\<close>.
\<close>

fun createResultVal :: "native \<Rightarrow> val" where
  "createResultVal (NInt32 x) = VS32 x"
| "createResultVal (NInt64 x) = VS64 x"
| "createResultVal (NUInt64 x) = VU64 x"
| "createResultVal (NFloat x) = VF32 x"
| "createResultVal (NDouble x) = VF64 x"
| "createResultVal (NOther _) = VS32 0"

section \<open>Callback adapter generator\<close>

text \<open>
  A host method pointer \<open>Ret (Class::*)(Args...)\<close>: its parameter types and its body.
  The body receives the instance (the non-null pointer value), the extracted arguments
  and the host's state \<open>'s\<close>, which it may change. A void method returns only the new
  state. The model covers methods that return normally.
\<close>

datatype 's func_ptr =
    VoidMethod "ctype list" "64 word \<Rightarrow> native list \<Rightarrow> 's \<Rightarrow> 's"
  | ValueMethod "ctype list" "64 word \<Rightarrow> native list \<Rightarrow> 's \<Rightarrow> native \<times> 's"

fun Args :: "'s func_ptr \<Rightarrow> ctype list" where
  "Args (VoidMethod ts _) = ts"
| "Args (ValueMethod ts _) = ts"

fun is_void :: "'s func_ptr \<Rightarrow> bool" where
  "is_void (VoidMethod _ _) = True"
| "is_void (ValueMethod _ _) = False"

text \<open>\<open>wasmtime::Result<std::monostate>\<close>: success, or an error carrying a message.\<close>

datatype outcome = ResultOk | ResultError string

text \<open>The messages the callback hands to \<open>Core::Logger\<close>, in the order it emits them.\<close>

datatype log_entry =
    Info_callback_invoked nat
  | Error_insufficient_arguments nat nat
  | Error_invalid_instance "64 word"
  | Trace_instance "64 word"
  | Trace_param nat ctype native
  | Trace_returned native

text \<open>
  What one call of a generated callback leaves behind: the returned outcome, the
  \<open>results\<close> span after the call, the invocations of the host method it made (instance
  and arguments, in order), the log messages, and the host's state.
\<close>

record 's callback_effect =
  outcome :: outcome
  results_out :: "val list"
  invocations :: "(64 word \<times> native list) list"
  logged :: "log_entry list"
  host :: 's

text \<open>
  \<open>InterfaceFunctionHostCallback\<close>. The closure never reads \<open>store_ctx\<close> and
  \<open>func_type\<close>, so the model's callback takes the two spans and the host's state.
\<close>

type_synonym 's InterfaceFunctionHostCallback =
  "val list \<Rightarrow> val list \<Rightarrow> 's \<Rightarrow> 's callback_effect"

text \<open>The pack expansion \<open>extractValue<Args>(args[Is + 1], Is + 1)...\<close>.\<close>

definition extractArgs :: "ctype list \<Rightarrow> val list \<Rightarrow> native list" where
  "extractArgs ts args =
     map (\<lambda>Is. extractValue (ts ! Is) (args ! (Is + 1)) (Is + 1)) [0..<length ts]"

definition traceArgs :: "ctype list \<Rightarrow> val list \<Rightarrow> log_entry list" where
  "traceArgs ts args =
     map (\<lambda>Is. Trace_param Is (ts ! Is) (extractValue (ts ! Is) (args ! (Is + 1)) (Is + 1)))
       [0..<length ts]"

definition generateCallbackImpl :: "'s func_ptr \<Rightarrow> 's InterfaceFunctionHostCallback" where
  "generateCallbackImpl func_ptr = (\<lambda>args results s.
     let log0 = [Info_callback_invoked (length args)] in
     if length args < 1 + length (Args func_ptr) then
       \<lparr>outcome = ResultOk, results_out = results, invocations = [],
        logged = log0 @ [Error_insufficient_arguments (1 + length (Args func_ptr)) (length args)],
        host = s\<rparr>
     else
       let instance_ptr_value = extractValue_int64 (args ! 0) 0 in
       if instance_ptr_value = 0 then
         \<lparr>outcome = ResultOk, results_out = results, invocations = [],
          logged = log0 @ [Error_invalid_instance instance_ptr_value],
          host = s\<rparr>
       else
         let log1 = log0 @ [Trace_instance instance_ptr_value] @ traceArgs (Args func_ptr) args;
             params = extractArgs (Args func_ptr) args
         in (case func_ptr of
               VoidMethod _ f \<Rightarrow>
                 \<lparr>outcome = ResultOk, results_out = results,
                  invocations = [(instance_ptr_value, params)],
                  logged = log1,
                  host = f instance_ptr_value params s\<rparr>
             | ValueMethod _ f \<Rightarrow>
                 (case f instance_ptr_value params s of
                    (result, s') \<Rightarrow>
                      \<lparr>outcome = ResultOk,
                       results_out =
                         (if length results > 0 then results[0 := createResultVal result]
                          else results),
                       invocations = [(instance_ptr_value, params)],
                       logged = log1 @ [Trace_returned result],
                       host = s'\<rparr>)))"

text \<open>\<open>generateCallback\<close> deduces the signature and delegates.\<close>

definition generateCallback :: "'s func_ptr \<Rightarrow> 's InterfaceFunctionHostCallback" where
  "generateCallback func_ptr = generateCallbackImpl func_ptr"

section \<open>Interface metadata\<close>

text \<open>
  \<open>Arieo::Base::InterfaceInfo<T>\<close> and \<open>Arieo::Base::ct::genCrc32StringID\<close> come from
  \<open>core/module/module.h\<close>, outside this header. The functions below take them as
  parameters: \<open>info T\<close> is what \<open>InterfaceInfo<T>\<close> answers for the interface type
  \<open>T\<close>, and \<open>genCrc32StringID\<close> is the string hash. \<open>iteratorMemberFunctions\<close>
  hands the member functions to its visitor one by one, in enumeration order, and
  \<open>getMemberFunctionCount\<close> is their number.
\<close>

record 's member_function =
  mf_func_ptr :: "'s func_ptr"
  mf_func_name :: string
  mf_wit_func_name :: string
  mf_function_id :: "64 word"
  mf_function_checksum :: "64 word"

record 's InterfaceInfo =
  getWitFullInterfaceName :: string
  getInterfaceId :: "64 word"
  getInterfaceChecksum :: "64 word"
  memberFunctions :: "'s member_function list"
  typeid_name :: string

definition getMemberFunctionCount :: "'s InterfaceInfo \<Rightarrow> nat" where
  "getMemberFunctionCount i = length (memberFunctions i)"

definition iteratorMemberFunctions ::
  "'s InterfaceInfo \<Rightarrow> ('s member_function \<Rightarrow> 'a \<Rightarrow> 'a) \<Rightarrow> 'a \<Rightarrow> 'a" where
  "iteratorMemberFunctions i visit acc = foldl (\<lambda>a mf. visit mf a) acc (memberFunctions i)"

section \<open>Export descriptors and their static storage\<close>

text \<open>
  The descriptors hold raw pointers into function-local statics. A pointer is modelled
  by the static it points into: the interface name of \<open>T\<close>, the \<open>i\<close>-th function name
  of \<open>T\<close>, the function array of \<open>T\<close>, the interface array of the instantiation
  \<open>LinkerExportInfoRegister<Interfaces...>\<close>, and that instantiation's
  \<open>m_linker_export_info\<close>.
\<close>

datatype 't char_ptr = NullChars | InterfaceNameData 't | FunctionNameData 't nat

datatype 't function_array_ptr = NullFunctionArray | FunctionInfoArrayData 't

datatype 't interface_array_ptr = NullInterfaceArray | InterfaceExportInfoArrayData "'t list"

datatype 't linker_ptr = LinkerExportInfoAddr "'t list"

text \<open>An empty \<open>std::function\<close> is \<open>None\<close>.\<close>

record ('t, 's) InterfaceFunctionExportInfo =
  m_function_name :: "'t char_ptr"
  m_function_id :: "64 word"
  m_function_checksum :: "64 word"
  m_host_callback :: "'s InterfaceFunctionHostCallback option"

record 't InterfaceExportInfo =
  m_interface_name :: "'t char_ptr"
  m_interaface_id :: "64 word"
  m_interface_checksum :: "64 word"
  m_interface_type_hash :: "64 word"
  m_member_function_array :: "'t function_array_ptr"
  m_member_function_count :: nat

record 't LinkerExportInfo =
  m_interface_array :: "'t interface_array_ptr"
  m_interface_count :: nat

text \<open>
  The statics of the process. \<open>interface_name\<close>, \<open>function_info_array\<close> and
  \<open>function_name_array\<close> belong to \<open>fillInterfaceExportInfo\<close> of each interface type;
  \<open>m_interface_export_info_array\<close> and \<open>m_linker_export_info\<close> belong to
  \<open>generateLinkerExportInfo\<close> of each instantiation. A \<open>std::array<X, N>\<close> is a block
  of cells addressed by index; its size \<open>N\<close> is fixed by the type, and the cells from
  \<open>N\<close> on are not part of it. \<open>interface_name\<close> has an initialiser, which runs the
  first time control passes the declaration: \<open>None\<close> is the string before that.
  \<open>fill_calls\<close> is not storage of the program: it records, in order, the interface type
  of every call of \<open>fillInterfaceExportInfo\<close>.
\<close>

record ('t, 's) statics =
  interface_name :: "'t \<Rightarrow> string option"
  function_info_array :: "'t \<Rightarrow> nat \<Rightarrow> ('t, 's) InterfaceFunctionExportInfo"
  function_name_array :: "'t \<Rightarrow> nat \<Rightarrow> string"
  m_interface_export_info_array :: "'t list \<Rightarrow> nat \<Rightarrow> 't InterfaceExportInfo"
  m_linker_export_info :: "'t list \<Rightarrow> 't LinkerExportInfo"
  fill_calls :: "'t list"

text \<open>The statics at process start: zero-initialised storage, default-constructed members.\<close>

definition process_start :: "('t, 's) statics" where
  "process_start =
     \<lparr>interface_name = (\<lambda>_. None),
      function_info_array = (\<lambda>_ _. \<lparr>m_function_name = NullChars, m_function_id = 0,
         m_function_checksum = 0, m_host_callback = None\<rparr>),
      function_name_array = (\<lambda>_ _. []),
      m_interface_export_info_array = (\<lambda>_ _. \<lparr>m_interface_name = NullChars,
         m_interaface_id = 0, m_interface_checksum = 0, m_interface_type_hash = 0,
         m_member_function_array = NullFunctionArray, m_member_function_count = 0\<rparr>),
      m_linker_export_info = (\<lambda>_. \<lparr>m_interface_array = NullInterfaceArray,
         m_interface_count = 0\<rparr>),
      fill_calls = []\<rparr>"

section \<open>Interface descriptor builder\<close>

text \<open>
  The visitor passed to \<open>iteratorMemberFunctions\<close>: it stores the export name, then the
  function descriptor pointing at it, and advances \<open>function_index\<close>.
\<close>

definition register_member_function ::
  "'t \<Rightarrow> 's member_function
   \<Rightarrow> nat \<times> (nat \<Rightarrow> ('t, 's) InterfaceFunctionExportInfo) \<times> (nat \<Rightarrow> string)
   \<Rightarrow> nat \<times> (nat \<Rightarrow> ('t, 's) InterfaceFunctionExportInfo) \<times> (nat \<Rightarrow> string)" where
  "register_member_function T mf st =
     (case st of (function_index, info_array, name_array) \<Rightarrow>
        (function_index + 1,
         info_array(function_index :=
           \<lparr>m_function_name = FunctionNameData T function_index,
            m_function_id = mf_function_id mf,
            m_function_checksum = mf_function_checksum mf,
            m_host_callback = Some (generateCallback (mf_func_ptr mf))\<rparr>),
         name_array(function_index := mf_wit_func_name mf)))"

definition fillInterfaceExportInfo ::
  "('t \<Rightarrow> 's InterfaceInfo) \<Rightarrow> (string \<Rightarrow> 64 word) \<Rightarrow> 't
   \<Rightarrow> ('t, 's) statics \<Rightarrow> 't InterfaceExportInfo
   \<Rightarrow> ('t, 's) statics \<times> 't InterfaceExportInfo" where
  "fillInterfaceExportInfo info genCrc32StringID T s interface_export_info =
     (let s1 = (case interface_name s T of
                  None \<Rightarrow> s\<lparr>interface_name :=
                             (interface_name s)(T := Some (getWitFullInterfaceName (info T)))\<rparr>
                | Some _ \<Rightarrow> s)
      in case iteratorMemberFunctions (info T) (register_member_function T)
                (0, function_info_array s1 T, function_name_array s1 T) of
           (function_index, info_array, name_array) \<Rightarrow>
             (s1\<lparr>function_info_array := (function_info_array s1)(T := info_array),
                 function_name_array := (function_name_array s1)(T := name_array),
                 fill_calls := fill_calls s1 @ [T]\<rparr>,
              interface_export_info
                \<lparr>m_interface_name := InterfaceNameData T,
                 m_interaface_id := getInterfaceId (info T),
                 m_interface_checksum := getInterfaceChecksum (info T),
                 m_interface_type_hash := genCrc32StringID (typeid_name (info T)),
                 m_member_function_array := FunctionInfoArrayData T,
                 m_member_function_count := getMemberFunctionCount (info T)\<rparr>))"

section \<open>Export registry assembler\<close>

text \<open>
  One element of the initialiser list: \<open>fillInterfaceExportInfo\<close> on the cell
  \<open>m_interface_export_info_array[index++]\<close> of the instantiation \<open>Interfaces\<close>.
\<close>

definition fill_next ::
  "('t \<Rightarrow> 's InterfaceInfo) \<Rightarrow> (string \<Rightarrow> 64 word) \<Rightarrow> 't list
   \<Rightarrow> nat \<times> ('t, 's) statics \<Rightarrow> 't \<Rightarrow> nat \<times> ('t, 's) statics" where
  "fill_next info genCrc32StringID Interfaces st T =
     (case st of (index, s) \<Rightarrow>
        (case fillInterfaceExportInfo info genCrc32StringID T s
                (m_interface_export_info_array s Interfaces index) of
           (s1, filled) \<Rightarrow>
             (index + 1,
              s1\<lparr>m_interface_export_info_array :=
                   (m_interface_export_info_array s1)
                     (Interfaces := (m_interface_export_info_array s1 Interfaces)
                        (index := filled))\<rparr>)))"

definition generateLinkerExportInfo ::
  "('t \<Rightarrow> 's InterfaceInfo) \<Rightarrow> (string \<Rightarrow> 64 word) \<Rightarrow> 't list
   \<Rightarrow> ('t, 's) statics \<Rightarrow> 't linker_ptr \<times> ('t, 's) statics" where
  "generateLinkerExportInfo info genCrc32StringID Interfaces s =
     (case foldl (fill_next info genCrc32StringID Interfaces) (0, s) Interfaces of
        (index, s1) \<Rightarrow>
          (LinkerExportInfoAddr Interfaces,
           s1\<lparr>m_linker_export_info :=
                (m_linker_export_info s1)
                  (Interfaces :=
                     (m_linker_export_info s1 Interfaces)
                       \<lparr>m_interface_array := InterfaceExportInfoArrayData Interfaces,
                        m_interface_count := length Interfaces\<rparr>)\<rparr>))"

text \<open>
  Modelled from the spec: the entry point \<open>link_interfaces(version_checksum)\<close>. The
  header declares only its pointer type \<open>DLLExportLinkInterfacesFn\<close>; the function is
  defined by the modules that embed the registry. By the spec it returns the registry
  of the assembler and leaves every use of the checksum to the loader.
\<close>

definition link_interfaces ::
  "('t \<Rightarrow> 's InterfaceInfo) \<Rightarrow> (string \<Rightarrow> 64 word) \<Rightarrow> 't list
   \<Rightarrow> 64 word \<Rightarrow> ('t, 's) statics \<Rightarrow> 't linker_ptr \<times> ('t, 's) statics" where
  "link_interfaces info genCrc32StringID Interfaces version_checksum s =
     generateLinkerExportInfo info genCrc32StringID Interfaces s"

section \<open>Reading a registry through its pointers\<close>

text \<open>
  What a loader sees when it follows the pointers of a registry: per interface its
  name, id, checksum, type hash and function table; per function its name, id,
  checksum and callback. A null pointer reads as no string and as an empty table.
\<close>

definition c_str :: "('t, 's) statics \<Rightarrow> 't char_ptr \<Rightarrow> string option" where
  "c_str s p =
     (case p of
        NullChars \<Rightarrow> None
      | InterfaceNameData T \<Rightarrow> interface_name s T
      | FunctionNameData T i \<Rightarrow> Some (function_name_array s T i))"

type_synonym 's function_content =
  "string option \<times> 64 word \<times> 64 word \<times> 's InterfaceFunctionHostCallback option"

type_synonym 's interface_content =
  "string option \<times> 64 word \<times> 64 word \<times> 64 word \<times> 's function_content list"

definition function_content ::
  "('t, 's) statics \<Rightarrow> ('t, 's) InterfaceFunctionExportInfo \<Rightarrow> 's function_content" where
  "function_content s f =
     (c_str s (m_function_name f), m_function_id f, m_function_checksum f, m_host_callback f)"

definition function_table ::
  "('t, 's) statics \<Rightarrow> 't InterfaceExportInfo \<Rightarrow> 's function_content list" where
  "function_table s e =
     (case m_member_function_array e of
        NullFunctionArray \<Rightarrow> []
      | FunctionInfoArrayData T \<Rightarrow>
          map (\<lambda>i. function_content s (function_info_array s T i))
            [0..<m_member_function_count e])"

definition interface_content ::
  "('t, 's) statics \<Rightarrow> 't InterfaceExportInfo \<Rightarrow> 's interface_content" where
  "interface_content s e =
     (c_str s (m_interface_name e), m_interaface_id e, m_interface_checksum e,
      m_interface_type_hash e, function_table s e)"

definition registry_content ::
  "('t, 's) statics \<Rightarrow> 't linker_ptr \<Rightarrow> 's interface_content list" where
  "registry_content s p =
     (case p of LinkerExportInfoAddr Interfaces \<Rightarrow>
        (case m_interface_array (m_linker_export_info s Interfaces) of
           NullInterfaceArray \<Rightarrow> []
         | InterfaceExportInfoArrayData ts \<Rightarrow>
             map (\<lambda>i. interface_content s (m_interface_export_info_array s ts i))
               [0..<m_interface_count (m_linker_export_info s Interfaces)]))"

text \<open>The (interface id, checksum) pair of a descriptor as read by the loader.\<close>

definition id_checksum :: "'s interface_content \<Rightarrow> 64 word \<times> 64 word" where
  "id_checksum c = (case c of (name, iid, checksum, rest) \<Rightarrow> (iid, checksum))"

text \<open>
  The descriptor content the metadata of \<open>T\<close> prescribes: every field taken from
  \<open>info T\<close>, one function entry per member function, in enumeration order.
\<close>

definition prescribed_function :: "'s member_function \<Rightarrow> 's function_content" where
  "prescribed_function mf =
     (Some (mf_wit_func_name mf), mf_function_id mf, mf_function_checksum mf,
      Some (generateCallback (mf_func_ptr mf)))"

definition prescribed_interface ::
  "('t \<Rightarrow> 's InterfaceInfo) \<Rightarrow> (string \<Rightarrow> 64 word) \<Rightarrow> 't \<Rightarrow> 's interface_content" where
  "prescribed_interface info genCrc32StringID T =
     (Some (getWitFullInterfaceName (info T)), getInterfaceId (info T),
      getInterfaceChecksum (info T), genCrc32StringID (typeid_name (info T)),
      map prescribed_function (memberFunctions (info T)))"

section \<open>Closed forms of the two loops\<close>

text \<open>
  Auxiliary terms for the proofs, none of them part of the program: the function and
  interface descriptors the builder assembles, an array whose first cells have been
  overwritten by a list, and the statics after \<open>fillInterfaceExportInfo\<close> has run for
  the interface types \<open>ts\<close> into the cells \<open>0..<length ts\<close> of the instantiation
  \<open>Interfaces\<close>.
\<close>

definition function_descriptor ::
  "'t \<Rightarrow> nat \<Rightarrow> 's member_function \<Rightarrow> ('t, 's) InterfaceFunctionExportInfo" where
  "function_descriptor T i mf =
     \<lparr>m_function_name = FunctionNameData T i,
      m_function_id = mf_function_id mf,
      m_function_checksum = mf_function_checksum mf,
      m_host_callback = Some (generateCallback (mf_func_ptr mf))\<rparr>"

definition interface_descriptor ::
  "('t \<Rightarrow> 's InterfaceInfo) \<Rightarrow> (string \<Rightarrow> 64 word) \<Rightarrow> 't \<Rightarrow> 't InterfaceExportInfo" where
  "interface_descriptor info genCrc32StringID T =
     \<lparr>m_interface_name = InterfaceNameData T,
      m_interaface_id = getInterfaceId (info T),
      m_interface_checksum = getInterfaceChecksum (info T),
      m_interface_type_hash = genCrc32StringID (typeid_name (info T)),
      m_member_function_array = FunctionInfoArrayData T,
      m_member_function_count = getMemberFunctionCount (info T)\<rparr>"

definition written_prefix :: "'a list \<Rightarrow> (nat \<Rightarrow> 'a) \<Rightarrow> nat \<Rightarrow> 'a" where
  "written_prefix xs old = (\<lambda>i. if i < length xs then xs ! i else old i)"

definition function_descriptors ::
  "'t \<Rightarrow> 's member_function list \<Rightarrow> ('t, 's) InterfaceFunctionExportInfo list" where
  "function_descriptors T mfs = map (\<lambda>i. function_descriptor T i (mfs ! i)) [0..<length mfs]"

definition after_fills ::
  "('t \<Rightarrow> 's InterfaceInfo) \<Rightarrow> (string \<Rightarrow> 64 word) \<Rightarrow> 't list \<Rightarrow> 't list
   \<Rightarrow> ('t, 's) statics \<Rightarrow> ('t, 's) statics" where
  "after_fills info genCrc32StringID Interfaces ts s =
     \<lparr>interface_name = (\<lambda>T. if T \<in> set ts
          then Some (case interface_name s T of
                       None \<Rightarrow> getWitFullInterfaceName (info T) | Some n \<Rightarrow> n)
          else interface_name s T),
      function_info_array = (\<lambda>T. if T \<in> set ts
          then written_prefix (function_descriptors T (memberFunctions (info T)))
                 (function_info_array s T)
          else function_info_array s T),
      function_name_array = (\<lambda>T. if T \<in> set ts
          then written_prefix (map mf_wit_func_name (memberFunctions (info T)))
                 (function_name_array s T)
          else function_name_array s T),
      m_interface_export_info_array = (m_interface_export_info_array s)
          (Interfaces := written_prefix (map (interface_descriptor info genCrc32StringID) ts)
             (m_interface_export_info_array s Interfaces)),
      m_linker_export_info = m_linker_export_info s,
      fill_calls = fill_calls s @ ts\<rparr>"

section \<open>Example metadata\<close>

text \<open>
  Two interface types with their metadata, a host whose state counts the method calls,
  and a stand-in string hash, used to evaluate the theorems at concrete inputs.
\<close>

datatype example_interface = IWindow | IAudio

definition count_calls :: "64 word \<Rightarrow> native list \<Rightarrow> nat \<Rightarrow> nat" where
  "count_calls inst xs n = n + 1"

definition count_calls_u64 :: "64 word \<Rightarrow> native list \<Rightarrow> nat \<Rightarrow> native \<times> nat" where
  "count_calls_u64 inst xs n = (NUInt64 100, n + 1)"

definition example_info :: "example_interface \<Rightarrow> nat InterfaceInfo" where
  "example_info T =
     (case T of
        IWindow \<Rightarrow>
          \<lparr>getWitFullInterfaceName = ''arieo:window/i-window'',
           getInterfaceId = 1, getInterfaceChecksum = 10,
           memberFunctions =
             [\<lparr>mf_func_ptr = ValueMethod [TInt32] count_calls_u64,
               mf_func_name = ''getWidth'', mf_wit_func_name = ''get-width'',
               mf_function_id = 7, mf_function_checksum = 70\<rparr>],
           typeid_name = ''IWindow''\<rparr>
      | IAudio \<Rightarrow>
          \<lparr>getWitFullInterfaceName = ''arieo:audio/i-audio'',
           getInterfaceId = 2, getInterfaceChecksum = 20,
           memberFunctions = [],
           typeid_name = ''IAudio''\<rparr>)"

definition example_crc :: "string \<Rightarrow> 64 word" where
  "example_crc name = of_nat (length name)"

definition example_first ::
  "example_interface linker_ptr \<times> (example_interface, nat) statics" where
  "example_first =
     generateLinkerExportInfo example_info example_crc [IAudio, IWindow] process_start"




section \<open>Lemmas on the loops\<close>

lemmas extract_defs = extractValue_int32_def extractValue_int64_def extractValue_uint64_def
  extractValue_float_def extractValue_double_def

lemma written_prefix_snoc:
  "(written_prefix xs old)(length xs := x) = written_prefix (xs @ [x]) old"
  by (auto simp: written_prefix_def fun_eq_iff nth_append)

lemma written_prefix_Nil: "written_prefix [] old = old"
  by (simp add: written_prefix_def)

lemma written_prefix_idem: "written_prefix xs (written_prefix xs old) = written_prefix xs old"
  by (auto simp: written_prefix_def fun_eq_iff)

lemma function_descriptors_snoc:
  "function_descriptors T (mfs @ [mf]) =
     function_descriptors T mfs @ [function_descriptor T (length mfs) mf]"
  by (simp add: function_descriptors_def nth_append)

lemma member_loop:
  "foldl (\<lambda>a mf. register_member_function T mf a) (0, info_array, name_array) mfs =
     (length mfs, written_prefix (function_descriptors T mfs) info_array,
      written_prefix (map mf_wit_func_name mfs) name_array)"
proof (induction mfs rule: rev_induct)
  case Nil
  show ?case by (simp add: function_descriptors_def written_prefix_Nil)
next
  case (snoc mf mfs)
  have len: "length (function_descriptors T mfs) = length mfs"
    by (simp add: function_descriptors_def)
  have "foldl (\<lambda>a mf. register_member_function T mf a) (0, info_array, name_array) (mfs @ [mf]) =
      register_member_function T mf
        (foldl (\<lambda>a mf. register_member_function T mf a) (0, info_array, name_array) mfs)"
    by simp
  also have "\<dots> = register_member_function T mf
      (length mfs, written_prefix (function_descriptors T mfs) info_array,
       written_prefix (map mf_wit_func_name mfs) name_array)"
    by (simp only: snoc.IH)
  also have "\<dots> = (length (mfs @ [mf]),
      written_prefix (function_descriptors T (mfs @ [mf])) info_array,
      written_prefix (map mf_wit_func_name (mfs @ [mf])) name_array)"
    using written_prefix_snoc [of "function_descriptors T mfs" info_array
        "function_descriptor T (length mfs) mf"]
      written_prefix_snoc [of "map mf_wit_func_name mfs" name_array "mf_wit_func_name mf"]
    by (simp add: register_member_function_def function_descriptors_snoc len
        function_descriptor_def)
  finally show ?case .
qed

lemma fill_closed_form:
  "fillInterfaceExportInfo info crc T s e =
     (s\<lparr>interface_name := (interface_name s)
           (T := Some (case interface_name s T of
                         None \<Rightarrow> getWitFullInterfaceName (info T) | Some n \<Rightarrow> n)),
        function_info_array := (function_info_array s)
           (T := written_prefix (function_descriptors T (memberFunctions (info T)))
                   (function_info_array s T)),
        function_name_array := (function_name_array s)
           (T := written_prefix (map mf_wit_func_name (memberFunctions (info T)))
                   (function_name_array s T)),
        fill_calls := fill_calls s @ [T]\<rparr>,
      interface_descriptor info crc T)"
  by (cases "interface_name s T")
     (simp_all add: fillInterfaceExportInfo_def iteratorMemberFunctions_def member_loop
       interface_descriptor_def fun_upd_idem)

lemma fill_next_step:
  "fill_next info crc Is (length ts, after_fills info crc Is ts s) T =
     (Suc (length ts), after_fills info crc Is (ts @ [T]) s)"
proof -
  have names: "(interface_name (after_fills info crc Is ts s))
      (T := Some (case interface_name (after_fills info crc Is ts s) T of
                    None \<Rightarrow> getWitFullInterfaceName (info T) | Some n \<Rightarrow> n)) =
      interface_name (after_fills info crc Is (ts @ [T]) s)"
    by (auto simp: after_fills_def fun_eq_iff split: option.splits)
  have infos: "(function_info_array (after_fills info crc Is ts s))
      (T := written_prefix (function_descriptors T (memberFunctions (info T)))
              (function_info_array (after_fills info crc Is ts s) T)) =
      function_info_array (after_fills info crc Is (ts @ [T]) s)"
    by (auto simp: after_fills_def fun_eq_iff written_prefix_idem)
  have fnames: "(function_name_array (after_fills info crc Is ts s))
      (T := written_prefix (map mf_wit_func_name (memberFunctions (info T)))
              (function_name_array (after_fills info crc Is ts s) T)) =
      function_name_array (after_fills info crc Is (ts @ [T]) s)"
    by (auto simp: after_fills_def fun_eq_iff written_prefix_idem)
  have cells: "(m_interface_export_info_array (after_fills info crc Is ts s))
      (Is := (m_interface_export_info_array (after_fills info crc Is ts s) Is)
               (length ts := interface_descriptor info crc T)) =
      m_interface_export_info_array (after_fills info crc Is (ts @ [T]) s)"
    using written_prefix_snoc [of "map (interface_descriptor info crc) ts"
        "m_interface_export_info_array s Is" "interface_descriptor info crc T"]
    by (simp add: after_fills_def)
  have rest: "m_linker_export_info (after_fills info crc Is ts s) =
        m_linker_export_info (after_fills info crc Is (ts @ [T]) s)"
      "fill_calls (after_fills info crc Is ts s) @ [T] =
        fill_calls (after_fills info crc Is (ts @ [T]) s)"
    by (simp_all add: after_fills_def)
  show ?thesis
    by (simp add: fill_next_def fill_closed_form names infos fnames cells rest)
qed

lemma after_fills_Nil: "after_fills info crc Is [] s = s"
  by (simp add: after_fills_def written_prefix_Nil)

lemma interface_loop:
  "foldl (fill_next info crc Is) (0, s) ts = (length ts, after_fills info crc Is ts s)"
proof (induction ts rule: rev_induct)
  case Nil
  show ?case by (simp add: after_fills_Nil)
next
  case (snoc T ts)
  have "foldl (fill_next info crc Is) (0, s) (ts @ [T]) =
      fill_next info crc Is (foldl (fill_next info crc Is) (0, s) ts) T"
    by simp
  also have "\<dots> = fill_next info crc Is (length ts, after_fills info crc Is ts s) T"
    by (simp only: snoc.IH)
  also have "\<dots> = (length (ts @ [T]), after_fills info crc Is (ts @ [T]) s)"
    by (simp add: fill_next_step)
  finally show ?case .
qed

lemma linker_info_all_fields:
  "(r :: 't LinkerExportInfo)\<lparr>m_interface_array := a, m_interface_count := n\<rparr> =
     \<lparr>m_interface_array = a, m_interface_count = n\<rparr>"
  by (cases r) simp

lemma generate_closed_form:
  "generateLinkerExportInfo info crc Is s =
     (LinkerExportInfoAddr Is,
      (after_fills info crc Is Is s)
        \<lparr>m_linker_export_info := (m_linker_export_info s)
           (Is := \<lparr>m_interface_array = InterfaceExportInfoArrayData Is,
                   m_interface_count = length Is\<rparr>)\<rparr>)"
  by (simp add: generateLinkerExportInfo_def interface_loop after_fills_def linker_info_all_fields)

lemma map_upt_nth: "map (\<lambda>i. f (xs ! i)) [0..<length xs] = map f xs"
  by (rule nth_equalityI) simp_all

lemma function_table_generate:
  assumes "T \<in> set Is"
  shows "function_table (snd (generateLinkerExportInfo info crc Is s))
           (interface_descriptor info crc T) =
         map prescribed_function (memberFunctions (info T))"
proof -
  have "map (\<lambda>i. function_content (snd (generateLinkerExportInfo info crc Is s))
               (function_info_array (snd (generateLinkerExportInfo info crc Is s)) T i))
          [0..<length (memberFunctions (info T))] =
        map (\<lambda>i. prescribed_function (memberFunctions (info T) ! i))
          [0..<length (memberFunctions (info T))]"
    using assms
    by (simp add: generate_closed_form after_fills_def written_prefix_def
        function_descriptors_def function_content_def function_descriptor_def c_str_def
        prescribed_function_def)
  then show ?thesis
    by (simp add: function_table_def interface_descriptor_def getMemberFunctionCount_def
        map_upt_nth)
qed

lemma registry_content_generate:
  "registry_content (snd (generateLinkerExportInfo info crc Is s))
      (fst (generateLinkerExportInfo info crc Is s)) =
   map (\<lambda>T. (Some (case interface_name s T of
                      None \<Rightarrow> getWitFullInterfaceName (info T) | Some n \<Rightarrow> n),
              snd (prescribed_interface info crc T))) Is"
proof -
  have cell: "interface_content (snd (generateLinkerExportInfo info crc Is s))
        (interface_descriptor info crc T) =
      (Some (case interface_name s T of
               None \<Rightarrow> getWitFullInterfaceName (info T) | Some n \<Rightarrow> n),
       snd (prescribed_interface info crc T))" if "T \<in> set Is" for T
  proof -
    have "c_str (snd (generateLinkerExportInfo info crc Is s)) (InterfaceNameData T) =
        Some (case interface_name s T of
                None \<Rightarrow> getWitFullInterfaceName (info T) | Some n \<Rightarrow> n)"
      using that by (simp add: generate_closed_form after_fills_def c_str_def)
    then show ?thesis
      using function_table_generate [OF that, of info crc s]
      by (simp add: interface_content_def prescribed_interface_def)
         (simp add: interface_descriptor_def)
  qed
  have "registry_content (snd (generateLinkerExportInfo info crc Is s))
      (fst (generateLinkerExportInfo info crc Is s)) =
    map (\<lambda>i. interface_content (snd (generateLinkerExportInfo info crc Is s))
               (interface_descriptor info crc (Is ! i))) [0..<length Is]"
    by (simp add: registry_content_def generate_closed_form after_fills_def written_prefix_def)
  also have "\<dots> = map (\<lambda>i. (\<lambda>T. (Some (case interface_name s T of
                      None \<Rightarrow> getWitFullInterfaceName (info T) | Some n \<Rightarrow> n),
              snd (prescribed_interface info crc T))) (Is ! i)) [0..<length Is]"
    by (simp add: cell)
  also have "\<dots> = map (\<lambda>T. (Some (case interface_name s T of
                      None \<Rightarrow> getWitFullInterfaceName (info T) | Some n \<Rightarrow> n),
              snd (prescribed_interface info crc T))) Is"
    by (rule map_upt_nth)
  finally show ?thesis .
qed

lemma id_checksum_prescribed:
  "id_checksum (n, snd (prescribed_interface info crc T)) =
     (getInterfaceId (info T), getInterfaceChecksum (info T))"
  by (simp add: id_checksum_def prescribed_interface_def)




section \<open>Properties of the typed value converter\<close>

text \<open>
  Claim C2. For each of the five supported native types \<open>T\<close> and every native value
  \<open>v\<close> of type \<open>T\<close>: wrapping \<open>v\<close> gives a typed value under the tag of \<open>T\<close>,
  extracting a \<open>T\<close> from it gives \<open>v\<close> back, and wrapping the extracted value again
  gives the typed value that wrapping \<open>v\<close> gave. Floating-point payloads are compared
  as bit patterns.
\<close>

theorem wrap_extract_wrap:
  assumes "native_type v = T" and "T \<in> {TInt32, TInt64, TUInt64, TFloat, TDouble}"
  shows "tag_for T = Some (tag_of (createResultVal v))
       \<and> extractValue T (createResultVal v) index = v
       \<and> createResultVal (extractValue T (createResultVal v) index) = createResultVal v"
  using assms by (cases v) (auto simp: extract_defs)

theorem wrap_extract_wrap_witness:
  "native_type (NUInt64 5) = TUInt64
   \<and> TUInt64 \<in> {TInt32, TInt64, TUInt64, TFloat, TDouble}
   \<and> createResultVal (NUInt64 5) = VU64 5
   \<and> tag_for TUInt64 = Some (tag_of (VU64 5))
   \<and> extractValue TUInt64 (VU64 5) 0 = NUInt64 5
   \<and> createResultVal (extractValue TUInt64 (VU64 5) 0) = VU64 5"
  using wrap_extract_wrap [of "NUInt64 5" TUInt64 0] by simp

text \<open>
  Claim C3, as amended. For every native type \<open>T\<close> and every typed value whose tag is
  not the tag of \<open>T\<close>, \<open>extractValue<T>\<close> returns without failing, and it returns the
  zero value of \<open>T\<close> in every case but one: \<open>extractValue<int64_t>\<close> of a u64-tagged
  value returns the 64 bits of the payload, read as a signed integer.
\<close>

theorem extract_mismatch:
  assumes "tag_for T \<noteq> Some (tag_of v)"
  shows "extractValue T v index =
     (case (T, v) of (TInt64, VU64 x) \<Rightarrow> NInt64 x | _ \<Rightarrow> zero_value T)"
  using assms by (cases T; cases v) (simp_all add: extract_defs)

theorem extract_mismatch_witness:
  "tag_for TInt32 \<noteq> Some (tag_of (VF64 9)) \<and> extractValue TInt32 (VF64 9) 2 = NInt32 0
   \<and> tag_for TInt64 \<noteq> Some (tag_of (VU64 5)) \<and> extractValue TInt64 (VU64 5) 0 = NInt64 5"
  using extract_mismatch [of TInt32 "VF64 9" 2] extract_mismatch [of TInt64 "VU64 5" 0]
  by simp

text \<open>
  The claim as stated fails: the tag u64 is not the tag of \<open>int64_t\<close>, and the
  extraction of an \<open>int64_t\<close> from the u64-tagged 5 is 5, not zero.
\<close>

theorem extract_mismatch_counterexample:
  "tag_for TInt64 \<noteq> Some (tag_of (VU64 5))
   \<and> extractValue TInt64 (VU64 5) 0 = NInt64 5
   \<and> extractValue TInt64 (VU64 5) 0 \<noteq> zero_value TInt64"
  by (simp add: extract_defs)

section \<open>Properties of the generated callbacks\<close>

text \<open>
  Claim C1. When the input span has fewer than \<open>1 + parameter_count\<close> elements, or
  its first element decodes to the null instance, the callback does not invoke the host
  method (no invocation, host state and output slots untouched) and returns success.
  With an empty span the first alternative holds, so \<open>args ! 0\<close> is only read where it
  exists.
\<close>

theorem rejected_call_is_benign:
  assumes "length args < 1 + length (Args func_ptr) \<or> extractValue_int64 (args ! 0) 0 = 0"
  shows "invocations (generateCallbackImpl func_ptr args results s) = []
       \<and> outcome (generateCallbackImpl func_ptr args results s) = ResultOk
       \<and> host (generateCallbackImpl func_ptr args results s) = s
       \<and> results_out (generateCallbackImpl func_ptr args results s) = results"
  using assms by (auto simp: generateCallbackImpl_def Let_def)

theorem rejected_call_is_benign_witness:
  "(length [VS64 1] < 1 + length (Args (VoidMethod [TInt32] count_calls))
      \<or> extractValue_int64 ([VS64 1] ! 0) 0 = 0)
   \<and> invocations (generateCallbackImpl (VoidMethod [TInt32] count_calls) [VS64 1] [] 0) = []
   \<and> outcome (generateCallbackImpl (VoidMethod [TInt32] count_calls) [VS64 1] [] 0) = ResultOk
   \<and> host (generateCallbackImpl (VoidMethod [TInt32] count_calls) [VS64 1] [] 0) = 0
   \<and> (length [VS64 0, VS32 3] < 1 + length (Args (VoidMethod [TInt32] count_calls))
      \<or> extractValue_int64 ([VS64 0, VS32 3] ! 0) 0 = 0)
   \<and> invocations (generateCallbackImpl (VoidMethod [TInt32] count_calls) [VS64 0, VS32 3] [] 0) = []
   \<and> outcome (generateCallbackImpl (VoidMethod [TInt32] count_calls) [VS64 0, VS32 3] [] 0) = ResultOk
   \<and> host (generateCallbackImpl (VoidMethod [TInt32] count_calls) [VS64 0, VS32 3] [] 0) = 0"
  using rejected_call_is_benign [of "[VS64 1]" "VoidMethod [TInt32] count_calls" "[]" 0]
    rejected_call_is_benign [of "[VS64 0, VS32 3]" "VoidMethod [TInt32] count_calls" "[]" 0]
  by (simp add: extract_defs)

text \<open>
  Claim C4. A callback generated from a method with a single parameter, the 32-bit
  signed integer its s32 input is meant for, that returns an unsigned 64-bit value
  \<open>r\<close>, called with a valid handle, the input s32(7) and one output slot, invokes the
  method exactly once with the argument 7, writes \<open>r\<close> tagged u64 into the slot, leaves
  the host in the state the method produced and returns success.
\<close>

theorem u64_method_s32_input:
  assumes "extractValue_int64 h 0 \<noteq> 0"
    and "f (extractValue_int64 h 0) [NInt32 7] s = (NUInt64 r, s')"
  shows "invocations (generateCallbackImpl (ValueMethod [TInt32] f) [h, VS32 7] [slot] s)
           = [(extractValue_int64 h 0, [NInt32 7])]
       \<and> results_out (generateCallbackImpl (ValueMethod [TInt32] f) [h, VS32 7] [slot] s)
           = [VU64 r]
       \<and> outcome (generateCallbackImpl (ValueMethod [TInt32] f) [h, VS32 7] [slot] s) = ResultOk
       \<and> host (generateCallbackImpl (ValueMethod [TInt32] f) [h, VS32 7] [slot] s) = s'"
  using assms
  by (simp add: generateCallbackImpl_def Let_def extractArgs_def extract_defs)

theorem u64_method_s32_input_witness:
  "extractValue_int64 (VS64 1) 0 \<noteq> 0
   \<and> count_calls_u64 (extractValue_int64 (VS64 1) 0) [NInt32 7] 0 = (NUInt64 100, 1)
   \<and> invocations (generateCallbackImpl (ValueMethod [TInt32] count_calls_u64)
        [VS64 1, VS32 7] [VS32 0] 0) = [(1, [NInt32 7])]
   \<and> results_out (generateCallbackImpl (ValueMethod [TInt32] count_calls_u64)
        [VS64 1, VS32 7] [VS32 0] 0) = [VU64 100]
   \<and> outcome (generateCallbackImpl (ValueMethod [TInt32] count_calls_u64)
        [VS64 1, VS32 7] [VS32 0] 0) = ResultOk
   \<and> host (generateCallbackImpl (ValueMethod [TInt32] count_calls_u64)
        [VS64 1, VS32 7] [VS32 0] 0) = 1"
  using u64_method_s32_input [of "VS64 1" count_calls_u64 0 100 1 "VS32 0"]
  by (simp add: extract_defs count_calls_u64_def)

text \<open>
  Claim C7, as amended. A callback generated from a zero-parameter method invokes the
  method, once and with no arguments, if and only if the input span has at least one
  element and its first element decodes to a non-null instance; further inputs are
  ignored.
\<close>

theorem zero_param_at_least_one_input:
  assumes "Args func_ptr = []"
  shows "invocations (generateCallbackImpl func_ptr args results s) =
     (if 1 \<le> length args \<and> extractValue_int64 (args ! 0) 0 \<noteq> 0
      then [(extractValue_int64 (args ! 0) 0, [])] else [])"
  using assms
  by (cases func_ptr)
     (auto simp: generateCallbackImpl_def Let_def extractArgs_def Suc_le_eq split: prod.splits)

theorem zero_param_at_least_one_input_witness:
  "Args (VoidMethod [] count_calls) = []
   \<and> invocations (generateCallbackImpl (VoidMethod [] count_calls) [VS64 1, VS32 0] [] 0)
       = [(1, [])]
   \<and> invocations (generateCallbackImpl (VoidMethod [] count_calls) [VS64 1] [] 0) = [(1, [])]
   \<and> invocations (generateCallbackImpl (VoidMethod [] count_calls) [] [] 0) = []"
  using zero_param_at_least_one_input [of "VoidMethod [] count_calls" "[VS64 1, VS32 0]" "[]" 0]
    zero_param_at_least_one_input [of "VoidMethod [] count_calls" "[VS64 1]" "[]" 0]
    zero_param_at_least_one_input [of "VoidMethod [] count_calls" "[]" "[]" 0]
  by (simp add: extract_defs)

text \<open>
  The claim as stated fails with two inputs: the span does not have exactly one element,
  the handle is valid, and the zero-parameter method is invoked.
\<close>

theorem zero_param_at_least_one_input_counterexample:
  "Args (VoidMethod [] count_calls) = []
   \<and> length [VS64 1, VS32 0] \<noteq> 1
   \<and> extractValue_int64 ([VS64 1, VS32 0] ! 0) 0 \<noteq> 0
   \<and> invocations (generateCallbackImpl (VoidMethod [] count_calls) [VS64 1, VS32 0] [] 0)
       = [(1, [])]
   \<and> host (generateCallbackImpl (VoidMethod [] count_calls) [VS64 1, VS32 0] [] 0) = 1"
  by (simp add: generateCallbackImpl_def extract_defs extractArgs_def count_calls_def)

text \<open>
  Claim C8. A generated callback writes at most one output: a void method leaves every
  output slot as it was; for any method the number of slots is unchanged and every slot
  after the first keeps its value, so only \<open>results[0]\<close> can be written.
\<close>

theorem at_most_one_output:
  "(is_void func_ptr \<longrightarrow> results_out (generateCallbackImpl func_ptr args results s) = results)
   \<and> length (results_out (generateCallbackImpl func_ptr args results s)) = length results
   \<and> drop 1 (results_out (generateCallbackImpl func_ptr args results s)) = drop 1 results"
  by (cases func_ptr; cases results)
     (auto simp: generateCallbackImpl_def Let_def split: prod.splits)

theorem at_most_one_output_witness:
  "is_void (VoidMethod [] count_calls)
   \<and> results_out (generateCallbackImpl (VoidMethod [] count_calls) [VS64 1] [VF32 3, VS32 4] 0)
       = [VF32 3, VS32 4]
   \<and> \<not> is_void (ValueMethod [] count_calls_u64)
   \<and> results_out (generateCallbackImpl (ValueMethod [] count_calls_u64) [VS64 1] [VF32 3, VS32 4] 0)
       = [VU64 100, VS32 4]"
  using at_most_one_output [of "VoidMethod [] count_calls" "[VS64 1]" "[VF32 3, VS32 4]" 0]
     at_most_one_output [of "ValueMethod [] count_calls_u64" "[VS64 1]" "[VF32 3, VS32 4]" 0]
  by (simp add: generateCallbackImpl_def extract_defs extractArgs_def traceArgs_def
      count_calls_u64_def)

text \<open>
  Claim C10. A callback generated from a non-void method, given enough inputs, a valid
  handle and an empty output span, invokes the method exactly once with the extracted
  arguments, writes nothing (the returned value is dropped, the host keeps the method's
  state change) and returns success.
\<close>

theorem empty_output_span_discards_result:
  assumes "1 + length ts \<le> length args"
    and "extractValue_int64 (args ! 0) 0 \<noteq> 0"
  shows "invocations (generateCallbackImpl (ValueMethod ts f) args [] s)
           = [(extractValue_int64 (args ! 0) 0, extractArgs ts args)]
       \<and> results_out (generateCallbackImpl (ValueMethod ts f) args [] s) = []
       \<and> outcome (generateCallbackImpl (ValueMethod ts f) args [] s) = ResultOk
       \<and> host (generateCallbackImpl (ValueMethod ts f) args [] s)
           = snd (f (extractValue_int64 (args ! 0) 0) (extractArgs ts args) s)"
  using assms by (auto simp: generateCallbackImpl_def Let_def split: prod.splits)

theorem empty_output_span_discards_result_witness:
  "1 + length [TInt32] \<le> length [VU64 4, VS32 7]
   \<and> extractValue_int64 ([VU64 4, VS32 7] ! 0) 0 \<noteq> 0
   \<and> invocations (generateCallbackImpl (ValueMethod [TInt32] count_calls_u64)
        [VU64 4, VS32 7] [] 0) = [(4, [NInt32 7])]
   \<and> results_out (generateCallbackImpl (ValueMethod [TInt32] count_calls_u64)
        [VU64 4, VS32 7] [] 0) = []
   \<and> outcome (generateCallbackImpl (ValueMethod [TInt32] count_calls_u64)
        [VU64 4, VS32 7] [] 0) = ResultOk
   \<and> host (generateCallbackImpl (ValueMethod [TInt32] count_calls_u64)
        [VU64 4, VS32 7] [] 0) = 1"
  using empty_output_span_discards_result [of "[TInt32]" "[VU64 4, VS32 7]" count_calls_u64 0]
  by (simp add: extract_defs extractArgs_def count_calls_u64_def)

section \<open>Properties of the export registry\<close>

text \<open>
  Claim C5, as amended. For every list of \<open>K\<close> interface types, from any state of the
  statics, the assembler returns the address of the instantiation's registry, whose
  count is \<open>K\<close> and whose content has exactly \<open>K\<close> descriptors, the \<open>i\<close>-th built from
  the metadata of the \<open>i\<close>-th supplied type (id, checksum, type hash and function
  table; the name is the interface's static name string). The (id, checksum) pairs of
  the descriptors are those of the metadata, in order, so they are pairwise distinct
  exactly when the metadata pairs of the supplied types are: the assembler copies them
  and checks nothing.
\<close>

theorem registry_descriptors:
  assumes "generateLinkerExportInfo info crc Interfaces s = (p, s')"
  shows "p = LinkerExportInfoAddr Interfaces
       \<and> m_interface_count (m_linker_export_info s' Interfaces) = length Interfaces
       \<and> length (registry_content s' p) = length Interfaces
       \<and> map snd (registry_content s' p) =
           map (\<lambda>T. snd (prescribed_interface info crc T)) Interfaces
       \<and> map id_checksum (registry_content s' p) =
           map (\<lambda>T. (getInterfaceId (info T), getInterfaceChecksum (info T))) Interfaces
       \<and> distinct (map id_checksum (registry_content s' p)) =
           distinct (map (\<lambda>T. (getInterfaceId (info T), getInterfaceChecksum (info T)))
             Interfaces)"
proof -
  have p: "p = fst (generateLinkerExportInfo info crc Interfaces s)"
    and s': "s' = snd (generateLinkerExportInfo info crc Interfaces s)"
    using assms by simp_all
  have content: "registry_content s' p =
      map (\<lambda>T. (Some (case interface_name s T of
                      None \<Rightarrow> getWitFullInterfaceName (info T) | Some n \<Rightarrow> n),
              snd (prescribed_interface info crc T))) Interfaces"
    unfolding p s' by (rule registry_content_generate)
  have ids: "map id_checksum (registry_content s' p) =
      map (\<lambda>T. (getInterfaceId (info T), getInterfaceChecksum (info T))) Interfaces"
    by (simp add: content id_checksum_prescribed comp_def)
  have "p = LinkerExportInfoAddr Interfaces"
    and "m_interface_count (m_linker_export_info s' Interfaces) = length Interfaces"
    using assms by (auto simp: generate_closed_form)
  moreover have "length (registry_content s' p) = length Interfaces"
    by (simp add: content)
  moreover have "map snd (registry_content s' p) =
      map (\<lambda>T. snd (prescribed_interface info crc T)) Interfaces"
    by (simp add: content comp_def)
  ultimately show ?thesis
    using ids by simp
qed

theorem registry_descriptors_witness:
  "generateLinkerExportInfo example_info example_crc [IAudio, IWindow] process_start =
     (LinkerExportInfoAddr [IAudio, IWindow], snd example_first)
   \<and> length (registry_content (snd example_first) (LinkerExportInfoAddr [IAudio, IWindow])) = 2
   \<and> map id_checksum
        (registry_content (snd example_first) (LinkerExportInfoAddr [IAudio, IWindow])) =
       [(2, 20), (1, 10)]
   \<and> distinct (map id_checksum
        (registry_content (snd example_first) (LinkerExportInfoAddr [IAudio, IWindow])))"
proof -
  have call: "generateLinkerExportInfo example_info example_crc [IAudio, IWindow] process_start =
      (LinkerExportInfoAddr [IAudio, IWindow], snd example_first)"
    by (simp add: example_first_def generate_closed_form)
  show ?thesis
    using call registry_descriptors [OF call] by (simp add: example_info_def)
qed

text \<open>
  The claim as stated fails when a type is supplied twice: both descriptors carry the
  same (id, checksum) pair.
\<close>

theorem registry_descriptors_counterexample:
  "map id_checksum
     (registry_content
        (snd (generateLinkerExportInfo example_info example_crc [IWindow, IWindow] process_start))
        (fst (generateLinkerExportInfo example_info example_crc [IWindow, IWindow] process_start)))
     = [(1, 10), (1, 10)]
   \<and> \<not> distinct (map id_checksum
        (registry_content
           (snd (generateLinkerExportInfo example_info example_crc [IWindow, IWindow] process_start))
           (fst (generateLinkerExportInfo example_info example_crc [IWindow, IWindow] process_start))))"
  by (simp add: registry_content_generate id_checksum_prescribed example_info_def)




text \<open>
  Claim C9. The entry point returns the same registry, and leaves the same statics,
  for any two version checksums: the assembler it calls takes no checksum at all.
\<close>

theorem link_interfaces_ignores_checksum:
  "link_interfaces info crc Interfaces version_checksum s =
     link_interfaces info crc Interfaces version_checksum' s
   \<and> link_interfaces info crc Interfaces version_checksum s =
     generateLinkerExportInfo info crc Interfaces s"
  by (simp add: link_interfaces_def)

end
